theory Spec2Isabelle
  imports Main "HOL-Library.Word"
begin

section \<open>Platform types used by \<^verbatim>\<open>AudioDecoder.cpp\<close>\<close>

text \<open>
  \<^verbatim>\<open>SInt64\<close> and \<^verbatim>\<open>UInt32\<close> are machine integers.  Comparisons of \<^verbatim>\<open>SInt64\<close> values are
  signed (\<open>word_sless\<close>, \<open>word_sle\<close>); the constant \<^verbatim>\<open>-1\<close> is the all-ones word.
\<close>

type_synonym SInt64 = "64 word"
type_synonym UInt32 = "32 word"

text \<open>
  A \<^verbatim>\<open>CFStringRef\<close> is a nullable reference to a string: \<open>string option\<close>, with \<open>None\<close>
  for \<^verbatim>\<open>nullptr\<close>.  A \<^verbatim>\<open>CFURLRef\<close> is a nullable reference to a URL.  The platform function
  \<^verbatim>\<open>CFURLCopyPathExtension\<close> is not part of the repository; its result is a field of the
  URL value (\<open>None\<close> when the URL has no path extension).
\<close>

datatype CFURL = CFURL (urlString: string) (CFURLCopyPathExtension: "string option")

datatype ErrorDomain = InputSource_ErrorDomain | Decoder_ErrorDomain | Other_ErrorDomain string

datatype ErrorCode = InputSource_FileNotFoundError | Other_ErrorCode int

text \<open>
  The value built by \<^verbatim>\<open>CreateErrorForURL(domain, code, description, url, failureReason,
  recoverySuggestion)\<close>: the arguments are kept as they are passed.
\<close>

datatype CFError = CreateErrorForURL
  (errDomain: ErrorDomain) (errCode: ErrorCode) (errDescription: string)
  (errURL: CFURL) (errFailureReason: string) (errRecoverySuggestion: string)

text \<open>
  The out-parameter \<^verbatim>\<open>CFErrorRef *error\<close>: the pointer itself may be null (the caller wants
  no error), otherwise it points to a slot holding a nullable \<^verbatim>\<open>CFErrorRef\<close>.
\<close>

datatype ErrorOut = NullErrorPtr | ErrorSlot "CFError option"

text \<open>\<^verbatim>\<open>if(error) *error = e;\<close>\<close>

fun setError :: "ErrorOut \<Rightarrow> CFError \<Rightarrow> ErrorOut" where
  "setError NullErrorPtr e = NullErrorPtr"
| "setError (ErrorSlot old) e = ErrorSlot (Some e)"

text \<open>
  \<^verbatim>\<open>CFCopyLocalizedString(key, comment)\<close> looks the key up in the bundle's string table and
  returns the key itself when there is no translation; the model has no string table.
\<close>

definition CFCopyLocalizedString :: "string \<Rightarrow> string \<Rightarrow> string" where
  "CFCopyLocalizedString key comment = key"

text \<open>
  \<^verbatim>\<open>kCFCompareEqualTo == CFStringCompare(a, b, kCFCompareCaseInsensitive)\<close>, on ASCII
  letters: both strings are equal once upper-case letters are folded to lower case.
\<close>

definition toLowerASCII :: "char \<Rightarrow> char" where
  "toLowerASCII c =
     (if (65::nat) \<le> of_char c \<and> of_char c \<le> (90::nat) then char_of (of_char c + (32::nat)) else c)"

definition CFStringCompare_CaseInsensitive_EqualTo :: "string \<Rightarrow> string \<Rightarrow> bool" where
  "CFStringCompare_CaseInsensitive_EqualTo a b \<longleftrightarrow> map toLowerASCII a = map toLowerASCII b"

text \<open>An \<^verbatim>\<open>AudioBufferList\<close> is opaque to the base class; it is only handed to the read hook.\<close>

datatype AudioBufferList = AudioBufferList (mBuffers: "int list list")

section \<open>The input source\<close>

text \<open>
  Modelled from the spec: the class \<^verbatim>\<open>InputSource\<close> (\<^verbatim>\<open>InputSource.h\<close>) is not among the
  sources.  The spec gives its contract: \<open>isOpen() -> bool\<close>, \<open>open(error?) -> bool\<close>,
  \<open>close(error?) -> bool\<close>, \<open>locator() -> optional URI\<close>.  Nothing more is fixed here: an
  input source is a locator, a private state and its three operations on that state.
\<close>

record 'i InputSource =
  GetURL :: "CFURL option"
  srcState :: 'i
  src_IsOpen :: "'i \<Rightarrow> bool"
  src_Open :: "'i \<Rightarrow> ErrorOut \<Rightarrow> bool \<times> 'i \<times> ErrorOut"
  src_Close :: "'i \<Rightarrow> ErrorOut \<Rightarrow> bool \<times> 'i \<times> ErrorOut"

definition InputSource_IsOpen :: "'i InputSource \<Rightarrow> bool" where
  "InputSource_IsOpen s = src_IsOpen s (srcState s)"

definition InputSource_Open :: "'i InputSource \<Rightarrow> ErrorOut \<Rightarrow> bool \<times> 'i InputSource \<times> ErrorOut" where
  "InputSource_Open s error =
     (case src_Open s (srcState s) error of
        (ok, st, error') \<Rightarrow> (ok, s\<lparr>srcState := st\<rparr>, error'))"

definition InputSource_Close :: "'i InputSource \<Rightarrow> ErrorOut \<Rightarrow> bool \<times> 'i InputSource \<times> ErrorOut" where
  "InputSource_Close s error =
     (case src_Close s (srcState s) error of
        (ok, st, error') \<Rightarrow> (ok, s\<lparr>srcState := st\<rparr>, error'))"

section \<open>The decoder base class\<close>

text \<open>
  The private virtual functions (\<^verbatim>\<open>_Open\<close>, \<^verbatim>\<open>_Close\<close>, \<^verbatim>\<open>_ReadAudio\<close>, ...) are the hooks a
  subclass implements (see the declarations in \<^verbatim>\<open>WavPackDecoder.h\<close>).  A hook works on the
  subclass's data members \<open>'p\<close> and on the input source the decoder owns; the \<^verbatim>\<open>const\<close>
  hooks only read them.
\<close>

record ('i, 'p) DecoderHooks =
  hook_Open :: "'p \<Rightarrow> 'i InputSource \<Rightarrow> ErrorOut \<Rightarrow> bool \<times> 'p \<times> 'i InputSource \<times> ErrorOut"
  hook_Close :: "'p \<Rightarrow> 'i InputSource \<Rightarrow> ErrorOut \<Rightarrow> bool \<times> 'p \<times> 'i InputSource \<times> ErrorOut"
  hook_ReadAudio :: "'p \<Rightarrow> 'i InputSource \<Rightarrow> AudioBufferList \<Rightarrow> UInt32
                      \<Rightarrow> UInt32 \<times> 'p \<times> 'i InputSource \<times> AudioBufferList"
  hook_GetTotalFrames :: "'p \<Rightarrow> 'i InputSource \<Rightarrow> SInt64"
  hook_GetCurrentFrame :: "'p \<Rightarrow> 'i InputSource \<Rightarrow> SInt64"
  hook_SupportsSeeking :: "'p \<Rightarrow> 'i InputSource \<Rightarrow> bool"
  hook_SeekToFrame :: "'p \<Rightarrow> 'i InputSource \<Rightarrow> SInt64 \<Rightarrow> SInt64 \<times> 'p \<times> 'i InputSource"

text \<open>
  The record of hook invocations is not a data member of the class: it is kept beside the
  members so that ``the hook is (not) invoked'' can be stated.  Every call of a hook by the
  base class appends one entry.
\<close>

datatype HookCall =
  Call_Open | Call_Close | Call_ReadAudio UInt32 | Call_GetTotalFrames
  | Call_GetCurrentFrame | Call_SupportsSeeking | Call_SeekToFrame SInt64

text \<open>
  A decoder built by \<^verbatim>\<open>Decoder(InputSource::unique_ptr inputSource)\<close>; the constructor
  asserts that the input source is not null, so \<open>mInputSource\<close> is a source, not an option.
  A hook works on the source object and cannot reset the pointer.  The resolver moves the
  source out of a decoder only when that decoder is about to be destroyed.
\<close>

record ('i, 'p) Decoder =
  mInputSource :: "'i InputSource"
  mIsOpen :: bool
  mSubclass :: 'p
  mHooks :: "('i, 'p) DecoderHooks"
  hookCalls :: "HookCall list"

definition Decoder_ctor :: "('i, 'p) DecoderHooks \<Rightarrow> 'p \<Rightarrow> 'i InputSource \<Rightarrow> ('i, 'p) Decoder" where
  "Decoder_ctor hooks members inputSource =
     \<lparr>mInputSource = inputSource, mIsOpen = False, mSubclass = members, mHooks = hooks,
      hookCalls = []\<rparr>"

definition IsOpen :: "('i, 'p) Decoder \<Rightarrow> bool" where
  "IsOpen d = mIsOpen d"

definition logCall :: "HookCall \<Rightarrow> ('i, 'p) Decoder \<Rightarrow> ('i, 'p) Decoder" where
  "logCall c d = d\<lparr>hookCalls := hookCalls d @ [c]\<rparr>"

text \<open>\<^verbatim>\<open>bool Decoder::Open(CFErrorRef *error)\<close>\<close>

definition Open :: "('i, 'p) Decoder \<Rightarrow> ErrorOut \<Rightarrow> bool \<times> ('i, 'p) Decoder \<times> ErrorOut" where
  "Open d error =
     (if IsOpen d then (True, d, error)
      else
        case (if \<not> InputSource_IsOpen (mInputSource d)
              then InputSource_Open (mInputSource d) error
              else (True, mInputSource d, error)) of
          (srcOk, src1, error1) \<Rightarrow>
            if \<not> srcOk then (False, d\<lparr>mInputSource := src1\<rparr>, error1)
            else
              case hook_Open (mHooks d) (mSubclass d) src1 error1 of
                (result, members, src2, error2) \<Rightarrow>
                  let d1 = logCall Call_Open (d\<lparr>mInputSource := src2, mSubclass := members\<rparr>);
                      d2 = (if result then d1\<lparr>mIsOpen := True\<rparr> else d1)
                  in (result, d2, error2))"

text \<open>\<^verbatim>\<open>bool Decoder::Close(CFErrorRef *error)\<close>\<close>

definition Close :: "('i, 'p) Decoder \<Rightarrow> ErrorOut \<Rightarrow> bool \<times> ('i, 'p) Decoder \<times> ErrorOut" where
  "Close d error =
     (if \<not> IsOpen d then (True, d, error)
      else
        case hook_Close (mHooks d) (mSubclass d) (mInputSource d) error of
          (result, members, src1, error1) \<Rightarrow>
            let d1 = logCall Call_Close (d\<lparr>mInputSource := src1, mSubclass := members\<rparr>);
                d2 = (if result then d1\<lparr>mIsOpen := False\<rparr> else d1)
            in case InputSource_Close (mInputSource d2) error1 of
                 (srcOk, src2, error2) \<Rightarrow>
                   if \<not> srcOk then (False, d2\<lparr>mInputSource := src2\<rparr>, error2)
                   else (result, d2\<lparr>mInputSource := src2\<rparr>, error2))"

text \<open>\<^verbatim>\<open>UInt32 Decoder::ReadAudio(AudioBufferList *bufferList, UInt32 frameCount)\<close>\<close>

definition ReadAudio :: "('i, 'p) Decoder \<Rightarrow> AudioBufferList option \<Rightarrow> UInt32
    \<Rightarrow> UInt32 \<times> ('i, 'p) Decoder \<times> AudioBufferList option" where
  "ReadAudio d bufferList frameCount =
     (if \<not> IsOpen d then (0, d, bufferList)
      else
        case bufferList of
          None \<Rightarrow> (0, d, bufferList)
        | Some buffers \<Rightarrow>
            if 0 = frameCount then (0, d, bufferList)
            else
              case hook_ReadAudio (mHooks d) (mSubclass d) (mInputSource d) buffers frameCount of
                (framesRead, members, src1, buffers1) \<Rightarrow>
                  (framesRead,
                   logCall (Call_ReadAudio frameCount) (d\<lparr>mInputSource := src1, mSubclass := members\<rparr>),
                   Some buffers1))"

text \<open>\<^verbatim>\<open>SInt64 Decoder::GetTotalFrames() const\<close>\<close>

definition GetTotalFrames :: "('i, 'p) Decoder \<Rightarrow> SInt64 \<times> ('i, 'p) Decoder" where
  "GetTotalFrames d =
     (if \<not> IsOpen d then (- 1, d)
      else (hook_GetTotalFrames (mHooks d) (mSubclass d) (mInputSource d),
            logCall Call_GetTotalFrames d))"

text \<open>\<^verbatim>\<open>SInt64 Decoder::GetCurrentFrame() const\<close>\<close>

definition GetCurrentFrame :: "('i, 'p) Decoder \<Rightarrow> SInt64 \<times> ('i, 'p) Decoder" where
  "GetCurrentFrame d =
     (if \<not> IsOpen d then (- 1, d)
      else (hook_GetCurrentFrame (mHooks d) (mSubclass d) (mInputSource d),
            logCall Call_GetCurrentFrame d))"

text \<open>\<^verbatim>\<open>bool Decoder::SupportsSeeking() const\<close>\<close>

definition SupportsSeeking :: "('i, 'p) Decoder \<Rightarrow> bool \<times> ('i, 'p) Decoder" where
  "SupportsSeeking d =
     (if \<not> IsOpen d then (False, d)
      else (hook_SupportsSeeking (mHooks d) (mSubclass d) (mInputSource d),
            logCall Call_SupportsSeeking d))"

text \<open>
  \<^verbatim>\<open>SInt64 Decoder::SeekToFrame(SInt64 frame)\<close>.  The range test is
  \<^verbatim>\<open>0 > frame || frame >= GetTotalFrames()\<close>: \<^verbatim>\<open>GetTotalFrames\<close> is called only when
  \<^verbatim>\<open>frame\<close> is not negative.
\<close>

definition SeekToFrame :: "('i, 'p) Decoder \<Rightarrow> SInt64 \<Rightarrow> SInt64 \<times> ('i, 'p) Decoder" where
  "SeekToFrame d frame =
     (if \<not> IsOpen d then (- 1, d)
      else if word_sless frame 0 then (- 1, d)
      else
        case GetTotalFrames d of
          (totalFrames, d1) \<Rightarrow>
            if word_sle totalFrames frame then (- 1, d1)
            else
              case hook_SeekToFrame (mHooks d1) (mSubclass d1) (mInputSource d1) frame of
                (result, members, src1) \<Rightarrow>
                  (result,
                   logCall (Call_SeekToFrame frame) (d1\<lparr>mInputSource := src1, mSubclass := members\<rparr>)))"

section \<open>Decoder subclass registration\<close>

text \<open>
  One entry of \<^verbatim>\<open>sRegisteredSubclasses\<close>: the static functions of a decoder subclass, held
  as function pointers.  The handlers take a \<^verbatim>\<open>CFStringRef\<close>, so a nullable string.
  \<^verbatim>\<open>CreateDecoder\<close> returns a new object of the subclass (see its declaration in
  \<^verbatim>\<open>WavPackDecoder.h\<close>), never a null pointer.
\<close>

record ('i, 'p) SubclassInfo =
  mCreateSupportedFileExtensions :: "string list"
  mCreateSupportedMIMETypes :: "string list"
  mHandlesFilesWithExtension :: "string option \<Rightarrow> bool"
  mHandlesMIMEType :: "string option \<Rightarrow> bool"
  mCreateDecoder :: "'i InputSource \<Rightarrow> ('i, 'p) Decoder"

text \<open>
  The global \<^verbatim>\<open>sRegisteredSubclasses\<close> (a vector, in registration order) and the global flag
  \<^verbatim>\<open>sAutomaticallyOpenDecoders\<close> are arguments of every function that reads them.  A call
  of the resolver reads the flag several times; it keeps one value during the call.
\<close>

definition CreateSupportedFileExtensions :: "('i, 'p) SubclassInfo list \<Rightarrow> string list" where
  "CreateSupportedFileExtensions sRegisteredSubclasses =
     foldl (\<lambda>supportedFileExtensions subclassInfo.
              supportedFileExtensions @ mCreateSupportedFileExtensions subclassInfo)
       [] sRegisteredSubclasses"

definition CreateSupportedMIMETypes :: "('i, 'p) SubclassInfo list \<Rightarrow> string list" where
  "CreateSupportedMIMETypes sRegisteredSubclasses =
     foldl (\<lambda>supportedMIMETypes subclassInfo.
              supportedMIMETypes @ mCreateSupportedMIMETypes subclassInfo)
       [] sRegisteredSubclasses"

text \<open>The loop of \<^verbatim>\<open>Decoder::HandlesFilesWithExtension\<close>, returning at the first match.\<close>

fun HandlesFilesWithExtension_loop :: "('i, 'p) SubclassInfo list \<Rightarrow> string option \<Rightarrow> bool" where
  "HandlesFilesWithExtension_loop [] extension = False"
| "HandlesFilesWithExtension_loop (subclassInfo # rest) extension =
     (if mHandlesFilesWithExtension subclassInfo extension then True
      else HandlesFilesWithExtension_loop rest extension)"

definition HandlesFilesWithExtension :: "('i, 'p) SubclassInfo list \<Rightarrow> string option \<Rightarrow> bool" where
  "HandlesFilesWithExtension sRegisteredSubclasses extension =
     (if extension = None then False
      else HandlesFilesWithExtension_loop sRegisteredSubclasses extension)"

text \<open>The loop of \<^verbatim>\<open>Decoder::HandlesMIMEType\<close>.\<close>

fun HandlesMIMEType_loop :: "('i, 'p) SubclassInfo list \<Rightarrow> string option \<Rightarrow> bool" where
  "HandlesMIMEType_loop [] mimeType = False"
| "HandlesMIMEType_loop (subclassInfo # rest) mimeType =
     (if mHandlesMIMEType subclassInfo mimeType then True
      else HandlesMIMEType_loop rest mimeType)"

definition HandlesMIMEType :: "('i, 'p) SubclassInfo list \<Rightarrow> string option \<Rightarrow> bool" where
  "HandlesMIMEType sRegisteredSubclasses mimeType =
     (if mimeType = None then False
      else HandlesMIMEType_loop sRegisteredSubclasses mimeType)"

text \<open>
  The handlers of a subclass, as \<^verbatim>\<open>MP3Metadata::HandlesFilesWithExtension\<close> and
  \<^verbatim>\<open>MP3Metadata::HandlesMIMEType\<close> write them: a null test, then one case-insensitive
  comparison with a constant.
\<close>

definition MP3Metadata_HandlesFilesWithExtension :: "string option \<Rightarrow> bool" where
  "MP3Metadata_HandlesFilesWithExtension extension =
     (case extension of
        None \<Rightarrow> False
      | Some e \<Rightarrow> if CFStringCompare_CaseInsensitive_EqualTo e ''mp3'' then True else False)"

definition MP3Metadata_HandlesMIMEType :: "string option \<Rightarrow> bool" where
  "MP3Metadata_HandlesMIMEType mimeType =
     (case mimeType of
        None \<Rightarrow> False
      | Some m \<Rightarrow> if CFStringCompare_CaseInsensitive_EqualTo m ''audio/mpeg'' then True else False)"

section \<open>Resolution: \<^verbatim>\<open>CreateDecoderForInputSource\<close>\<close>

text \<open>
  A loop over the registered subclasses either returns a decoder from inside the loop or
  runs to its end, leaving the input source (taken back from every decoder that failed to
  open) and the error slot to the code after it.
\<close>

datatype ('i, 'p) LoopResult =
  LoopReturn "('i, 'p) Decoder" ErrorOut
  | LoopEnd "'i InputSource" ErrorOut

text \<open>The loop under \<^verbatim>\<open>if(mimeType)\<close> (lines 140 to 153).\<close>

fun mimeTypeLoop :: "bool \<Rightarrow> string option \<Rightarrow> ('i, 'p) SubclassInfo list
    \<Rightarrow> 'i InputSource \<Rightarrow> ErrorOut \<Rightarrow> ('i, 'p) LoopResult" where
  "mimeTypeLoop automaticallyOpenDecoders mimeType [] inputSource error =
     LoopEnd inputSource error"
| "mimeTypeLoop automaticallyOpenDecoders mimeType (subclassInfo # rest) inputSource error =
     (if mHandlesMIMEType subclassInfo mimeType then
        (let decoder = mCreateDecoder subclassInfo inputSource in
         if \<not> automaticallyOpenDecoders then LoopReturn decoder error
         else
           case Open decoder error of
             (opened, decoder1, error1) \<Rightarrow>
               if opened then LoopReturn decoder1 error1
               else mimeTypeLoop automaticallyOpenDecoders mimeType rest
                      (mInputSource decoder1) error1)
      else mimeTypeLoop automaticallyOpenDecoders mimeType rest inputSource error)"

text \<open>The loop over the path extension (lines 184 to 197).\<close>

fun extensionLoop :: "bool \<Rightarrow> string option \<Rightarrow> ('i, 'p) SubclassInfo list
    \<Rightarrow> 'i InputSource \<Rightarrow> ErrorOut \<Rightarrow> ('i, 'p) LoopResult" where
  "extensionLoop automaticallyOpenDecoders pathExtension [] inputSource error =
     LoopEnd inputSource error"
| "extensionLoop automaticallyOpenDecoders pathExtension (subclassInfo # rest) inputSource error =
     (if mHandlesFilesWithExtension subclassInfo pathExtension then
        (let decoder = mCreateDecoder subclassInfo inputSource in
         if \<not> automaticallyOpenDecoders then LoopReturn decoder error
         else
           case Open decoder error of
             (opened, decoder1, error1) \<Rightarrow>
               if opened then LoopReturn decoder1 error1
               else extensionLoop automaticallyOpenDecoders pathExtension rest
                      (mInputSource decoder1) error1)
      else extensionLoop automaticallyOpenDecoders pathExtension rest inputSource error)"

text \<open>
  The error written when the URL has no path extension.  The description's typographic
  quotation marks around \<^verbatim>\<open>%@\<close> are left out of the ASCII string.
\<close>

definition unknownFileTypeError :: "CFURL \<Rightarrow> CFError" where
  "unknownFileTypeError inputURL =
     CreateErrorForURL InputSource_ErrorDomain InputSource_FileNotFoundError
       (CFCopyLocalizedString ''The type of the file %@ could not be determined.'' [])
       inputURL
       (CFCopyLocalizedString ''Unknown file type'' [])
       (CFCopyLocalizedString
          ''The file's extension may be missing or may not match the file's type.'' [])"

text \<open>
  The first statement after the null test (line 123):
  \<^verbatim>\<open>AutomaticallyOpenDecoders() && !inputSource->IsOpen() && !inputSource->Open(error)\<close>.
  The first component tells whether resolution goes on.
\<close>

definition openInputSourceIfNeeded :: "bool \<Rightarrow> 'i InputSource \<Rightarrow> ErrorOut
    \<Rightarrow> bool \<times> 'i InputSource \<times> ErrorOut" where
  "openInputSourceIfNeeded automaticallyOpenDecoders inputSource error =
     (if automaticallyOpenDecoders \<and> \<not> InputSource_IsOpen inputSource
      then InputSource_Open inputSource error
      else (True, inputSource, error))"

text \<open>The code from \<^verbatim>\<open>inputSource->GetURL()\<close> to the end of the function (lines 163 to 199).\<close>

definition extensionBasedResolvers :: "('i, 'p) SubclassInfo list \<Rightarrow> bool
    \<Rightarrow> 'i InputSource \<Rightarrow> ErrorOut \<Rightarrow> ('i, 'p) Decoder option \<times> ErrorOut" where
  "extensionBasedResolvers sRegisteredSubclasses automaticallyOpenDecoders inputSource error =
     (case GetURL inputSource of
        None \<Rightarrow> (None, error)
      | Some inputURL \<Rightarrow>
          (case CFURLCopyPathExtension inputURL of
             None \<Rightarrow> (None, setError error (unknownFileTypeError inputURL))
           | Some pathExtension \<Rightarrow>
               (case extensionLoop automaticallyOpenDecoders (Some pathExtension)
                       sRegisteredSubclasses inputSource error of
                  LoopReturn decoder error1 \<Rightarrow> (Some decoder, error1)
                | LoopEnd inputSource1 error1 \<Rightarrow> (None, error1))))"

text \<open>
  \<^verbatim>\<open>Decoder::CreateDecoderForInputSource(inputSource, mimeType, error)\<close>.  A null
  \<^verbatim>\<open>unique_ptr\<close> is \<open>None\<close>; the result is the returned pointer and the error slot.
\<close>

definition CreateDecoderForInputSource :: "('i, 'p) SubclassInfo list \<Rightarrow> bool
    \<Rightarrow> 'i InputSource option \<Rightarrow> string option \<Rightarrow> ErrorOut
    \<Rightarrow> ('i, 'p) Decoder option \<times> ErrorOut" where
  "CreateDecoderForInputSource sRegisteredSubclasses automaticallyOpenDecoders
       inputSource mimeType error =
     (case inputSource of
        None \<Rightarrow> (None, error)
      | Some source \<Rightarrow>
          (case openInputSourceIfNeeded automaticallyOpenDecoders source error of
             (goOn, source1, error1) \<Rightarrow>
               if \<not> goOn then (None, error1)
               else
                 (case (if mimeType \<noteq> None
                        then mimeTypeLoop automaticallyOpenDecoders mimeType
                               sRegisteredSubclasses source1 error1
                        else LoopEnd source1 error1) of
                    LoopReturn decoder error2 \<Rightarrow> (Some decoder, error2)
                  | LoopEnd source2 error2 \<Rightarrow>
                      extensionBasedResolvers sRegisteredSubclasses automaticallyOpenDecoders
                        source2 error2)))"

text \<open>The overload without a MIME type (line 112).\<close>

definition CreateDecoderForInputSource_noMIME :: "('i, 'p) SubclassInfo list \<Rightarrow> bool
    \<Rightarrow> 'i InputSource option \<Rightarrow> ErrorOut \<Rightarrow> ('i, 'p) Decoder option \<times> ErrorOut" where
  "CreateDecoderForInputSource_noMIME sRegisteredSubclasses automaticallyOpenDecoders
       inputSource error =
     CreateDecoderForInputSource sRegisteredSubclasses automaticallyOpenDecoders
       inputSource None error"

text \<open>
  \<^verbatim>\<open>InputSource::CreateInputSourceForURL(url, flags, error)\<close> is not among the sources; it
  is the argument \<open>createInputSourceForURL\<close>.  It runs first (it is an argument of the
  call), and the resolver then gets the same error pointer.
\<close>

type_synonym 'i CreateInputSourceForURL =
  "CFURL option \<Rightarrow> int \<Rightarrow> ErrorOut \<Rightarrow> 'i InputSource option \<times> ErrorOut"

definition CreateDecoderForURL :: "'i CreateInputSourceForURL \<Rightarrow> ('i, 'p) SubclassInfo list
    \<Rightarrow> bool \<Rightarrow> CFURL option \<Rightarrow> string option \<Rightarrow> ErrorOut
    \<Rightarrow> ('i, 'p) Decoder option \<times> ErrorOut" where
  "CreateDecoderForURL createInputSourceForURL sRegisteredSubclasses automaticallyOpenDecoders
       url mimeType error =
     (case createInputSourceForURL url 0 error of
        (inputSource, error1) \<Rightarrow>
          CreateDecoderForInputSource sRegisteredSubclasses automaticallyOpenDecoders
            inputSource mimeType error1)"

definition CreateDecoderForURL_noMIME :: "'i CreateInputSourceForURL \<Rightarrow> ('i, 'p) SubclassInfo list
    \<Rightarrow> bool \<Rightarrow> CFURL option \<Rightarrow> ErrorOut \<Rightarrow> ('i, 'p) Decoder option \<times> ErrorOut" where
  "CreateDecoderForURL_noMIME createInputSourceForURL sRegisteredSubclasses
       automaticallyOpenDecoders url error =
     CreateDecoderForURL createInputSourceForURL sRegisteredSubclasses
       automaticallyOpenDecoders url None error"

section \<open>Region decoders\<close>

text \<open>
  \<^verbatim>\<open>Decoder::unique_ptr\<close> points to an object of any subclass.  The class
  \<^verbatim>\<open>LoopableRegionDecoder\<close> is not among the sources; only its three constructors are
  called here, and an object of it is the constructor's arguments.
\<close>

datatype ('i, 'p) DecoderObject =
  Subclass "('i, 'p) Decoder"
  | LoopableRegionDecoder_1 "('i, 'p) DecoderObject" SInt64
  | LoopableRegionDecoder_2 "('i, 'p) DecoderObject" SInt64 UInt32
  | LoopableRegionDecoder_3 "('i, 'p) DecoderObject" SInt64 UInt32 UInt32

text \<open>The three overloads of \<^verbatim>\<open>CreateDecoderForDecoderRegion\<close>.\<close>

definition CreateDecoderForDecoderRegion_1 :: "('i, 'p) DecoderObject option \<Rightarrow> SInt64
    \<Rightarrow> ErrorOut \<Rightarrow> ('i, 'p) DecoderObject option \<times> ErrorOut" where
  "CreateDecoderForDecoderRegion_1 decoder startingFrame error =
     (case decoder of
        None \<Rightarrow> (None, error)
      | Some d \<Rightarrow> (Some (LoopableRegionDecoder_1 d startingFrame), error))"

definition CreateDecoderForDecoderRegion_2 :: "('i, 'p) DecoderObject option \<Rightarrow> SInt64
    \<Rightarrow> UInt32 \<Rightarrow> ErrorOut \<Rightarrow> ('i, 'p) DecoderObject option \<times> ErrorOut" where
  "CreateDecoderForDecoderRegion_2 decoder startingFrame frameCount error =
     (case decoder of
        None \<Rightarrow> (None, error)
      | Some d \<Rightarrow> (Some (LoopableRegionDecoder_2 d startingFrame frameCount), error))"

definition CreateDecoderForDecoderRegion_3 :: "('i, 'p) DecoderObject option \<Rightarrow> SInt64
    \<Rightarrow> UInt32 \<Rightarrow> UInt32 \<Rightarrow> ErrorOut \<Rightarrow> ('i, 'p) DecoderObject option \<times> ErrorOut" where
  "CreateDecoderForDecoderRegion_3 decoder startingFrame frameCount repeatCount error =
     (case decoder of
        None \<Rightarrow> (None, error)
      | Some d \<Rightarrow> (Some (LoopableRegionDecoder_3 d startingFrame frameCount repeatCount), error))"

text \<open>
  The three overloads of \<^verbatim>\<open>CreateDecoderForInputSourceRegion\<close>: a null test, then the
  resolver without a MIME type, then the region constructor.
\<close>

definition CreateDecoderForInputSourceRegion_1 :: "('i, 'p) SubclassInfo list \<Rightarrow> bool
    \<Rightarrow> 'i InputSource option \<Rightarrow> SInt64 \<Rightarrow> ErrorOut
    \<Rightarrow> ('i, 'p) DecoderObject option \<times> ErrorOut" where
  "CreateDecoderForInputSourceRegion_1 sRegisteredSubclasses automaticallyOpenDecoders
       inputSource startingFrame error =
     (if inputSource = None then (None, error)
      else
        case CreateDecoderForInputSource_noMIME sRegisteredSubclasses automaticallyOpenDecoders
               inputSource error of
          (decoder, error1) \<Rightarrow>
            CreateDecoderForDecoderRegion_1 (map_option Subclass decoder) startingFrame error1)"

definition CreateDecoderForInputSourceRegion_2 :: "('i, 'p) SubclassInfo list \<Rightarrow> bool
    \<Rightarrow> 'i InputSource option \<Rightarrow> SInt64 \<Rightarrow> UInt32 \<Rightarrow> ErrorOut
    \<Rightarrow> ('i, 'p) DecoderObject option \<times> ErrorOut" where
  "CreateDecoderForInputSourceRegion_2 sRegisteredSubclasses automaticallyOpenDecoders
       inputSource startingFrame frameCount error =
     (if inputSource = None then (None, error)
      else
        case CreateDecoderForInputSource_noMIME sRegisteredSubclasses automaticallyOpenDecoders
               inputSource error of
          (decoder, error1) \<Rightarrow>
            CreateDecoderForDecoderRegion_2 (map_option Subclass decoder) startingFrame
              frameCount error1)"

definition CreateDecoderForInputSourceRegion_3 :: "('i, 'p) SubclassInfo list \<Rightarrow> bool
    \<Rightarrow> 'i InputSource option \<Rightarrow> SInt64 \<Rightarrow> UInt32 \<Rightarrow> UInt32 \<Rightarrow> ErrorOut
    \<Rightarrow> ('i, 'p) DecoderObject option \<times> ErrorOut" where
  "CreateDecoderForInputSourceRegion_3 sRegisteredSubclasses automaticallyOpenDecoders
       inputSource startingFrame frameCount repeatCount error =
     (if inputSource = None then (None, error)
      else
        case CreateDecoderForInputSource_noMIME sRegisteredSubclasses automaticallyOpenDecoders
               inputSource error of
          (decoder, error1) \<Rightarrow>
            CreateDecoderForDecoderRegion_3 (map_option Subclass decoder) startingFrame
              frameCount repeatCount error1)"

text \<open>The three overloads of \<^verbatim>\<open>CreateDecoderForURLRegion\<close>.\<close>

definition CreateDecoderForURLRegion_1 :: "'i CreateInputSourceForURL
    \<Rightarrow> ('i, 'p) SubclassInfo list \<Rightarrow> bool \<Rightarrow> CFURL option \<Rightarrow> SInt64 \<Rightarrow> ErrorOut
    \<Rightarrow> ('i, 'p) DecoderObject option \<times> ErrorOut" where
  "CreateDecoderForURLRegion_1 createInputSourceForURL sRegisteredSubclasses
       automaticallyOpenDecoders url startingFrame error =
     (case createInputSourceForURL url 0 error of
        (inputSource, error1) \<Rightarrow>
          CreateDecoderForInputSourceRegion_1 sRegisteredSubclasses automaticallyOpenDecoders
            inputSource startingFrame error1)"

definition CreateDecoderForURLRegion_2 :: "'i CreateInputSourceForURL
    \<Rightarrow> ('i, 'p) SubclassInfo list \<Rightarrow> bool \<Rightarrow> CFURL option \<Rightarrow> SInt64 \<Rightarrow> UInt32 \<Rightarrow> ErrorOut
    \<Rightarrow> ('i, 'p) DecoderObject option \<times> ErrorOut" where
  "CreateDecoderForURLRegion_2 createInputSourceForURL sRegisteredSubclasses
       automaticallyOpenDecoders url startingFrame frameCount error =
     (case createInputSourceForURL url 0 error of
        (inputSource, error1) \<Rightarrow>
          CreateDecoderForInputSourceRegion_2 sRegisteredSubclasses automaticallyOpenDecoders
            inputSource startingFrame frameCount error1)"

definition CreateDecoderForURLRegion_3 :: "'i CreateInputSourceForURL
    \<Rightarrow> ('i, 'p) SubclassInfo list \<Rightarrow> bool \<Rightarrow> CFURL option \<Rightarrow> SInt64 \<Rightarrow> UInt32 \<Rightarrow> UInt32
    \<Rightarrow> ErrorOut \<Rightarrow> ('i, 'p) DecoderObject option \<times> ErrorOut" where
  "CreateDecoderForURLRegion_3 createInputSourceForURL sRegisteredSubclasses
       automaticallyOpenDecoders url startingFrame frameCount repeatCount error =
     (case createInputSourceForURL url 0 error of
        (inputSource, error1) \<Rightarrow>
          CreateDecoderForInputSourceRegion_3 sRegisteredSubclasses automaticallyOpenDecoders
            inputSource startingFrame frameCount repeatCount error1)"

section \<open>Resolution in the words of the specification\<close>

text \<open>
  This definition follows the specification, not the source.  With automatic opening, the
  specification takes the matching subclasses in registration order: ``construct a decoder
  ... attempt to open it; on success return it; on failure, reclaim the ByteSource from the
  failed decoder and continue scanning subsequent plugins''.  The list is the list of
  matching subclasses; the source handed to the next one is the one taken back from the
  decoder that failed.
\<close>

fun specAttemptInOrder :: "('i, 'p) SubclassInfo list \<Rightarrow> 'i InputSource \<Rightarrow> ErrorOut
    \<Rightarrow> ('i, 'p) LoopResult" where
  "specAttemptInOrder [] source error = LoopEnd source error"
| "specAttemptInOrder (plugin # later) source error =
     (case Open (mCreateDecoder plugin source) error of
        (opened, decoder, error1) \<Rightarrow>
          if opened then LoopReturn decoder error1
          else specAttemptInOrder later (mInputSource decoder) error1)"


section \<open>Example sources and subclasses\<close>

text \<open>
  Concrete objects on which the theorems below are instantiated.  A file source keeps one
  flag, whether it is open; opening and closing it succeed.
\<close>

definition fileSource :: "CFURL option \<Rightarrow> bool \<Rightarrow> bool InputSource" where
  "fileSource url isOpen =
     \<lparr>GetURL = url, srcState = isOpen,
      src_IsOpen = (\<lambda>st. st),
      src_Open = (\<lambda>st error. (True, True, error)),
      src_Close = (\<lambda>st error. (True, False, error))\<rparr>"

definition songURL :: CFURL where
  "songURL = CFURL ''file:///music/song.mp3'' (Some ''mp3'')"

definition streamURL :: CFURL where
  "streamURL = CFURL ''http://radio.example/stream'' None"

text \<open>
  A decoder subclass in the manner of \<^verbatim>\<open>WavPackDecoder\<close>: its data members are the total and
  the current frame, \<^verbatim>\<open>_GetTotalFrames\<close> and \<^verbatim>\<open>_GetCurrentFrame\<close> return them.  Whether
  \<^verbatim>\<open>_Open\<close> and \<^verbatim>\<open>_Close\<close> succeed is fixed by two flags; a failing hook reports an error.
\<close>

definition hookError :: "string \<Rightarrow> CFError" where
  "hookError reason =
     CreateErrorForURL Decoder_ErrorDomain (Other_ErrorCode 0) ''The file is not valid.''
       songURL reason ''The file's extension may not match the file's type.''"

definition exampleHooks :: "bool \<Rightarrow> bool \<Rightarrow> (bool, SInt64 \<times> SInt64) DecoderHooks" where
  "exampleHooks openSucceeds closeSucceeds =
     \<lparr>hook_Open = (\<lambda>members source error.
        if openSucceeds then (True, members, source, error)
        else (False, members, source, setError error (hookError ''Not a valid file''))),
      hook_Close = (\<lambda>members source error.
        if closeSucceeds then (True, members, source, error)
        else (False, members, source, setError error (hookError ''Close failed''))),
      hook_ReadAudio = (\<lambda>members source buffers frameCount.
        (frameCount, (fst members, snd members + ucast frameCount), source, buffers)),
      hook_GetTotalFrames = (\<lambda>members source. fst members),
      hook_GetCurrentFrame = (\<lambda>members source. snd members),
      hook_SupportsSeeking = (\<lambda>members source. True),
      hook_SeekToFrame = (\<lambda>members source frame. (frame, (fst members, frame), source))\<rparr>"

definition exampleDecoder :: "bool \<Rightarrow> bool \<Rightarrow> SInt64 \<Rightarrow> bool InputSource
    \<Rightarrow> (bool, SInt64 \<times> SInt64) Decoder" where
  "exampleDecoder openSucceeds closeSucceeds totalFrames inputSource =
     Decoder_ctor (exampleHooks openSucceeds closeSucceeds) (totalFrames, 0) inputSource"

text \<open>
  A registered subclass with one extension and one MIME type, compared as
  \<^verbatim>\<open>MP3Metadata\<close> compares them.  The total frame count tells its decoders from those of
  another subclass.
\<close>

definition exampleSubclass :: "string \<Rightarrow> string \<Rightarrow> bool \<Rightarrow> SInt64
    \<Rightarrow> (bool, SInt64 \<times> SInt64) SubclassInfo" where
  "exampleSubclass extension mimeType openSucceeds totalFrames =
     \<lparr>mCreateSupportedFileExtensions = [extension],
      mCreateSupportedMIMETypes = [mimeType],
      mHandlesFilesWithExtension = (\<lambda>e. case e of None \<Rightarrow> False
         | Some x \<Rightarrow> CFStringCompare_CaseInsensitive_EqualTo x extension),
      mHandlesMIMEType = (\<lambda>m. case m of None \<Rightarrow> False
         | Some x \<Rightarrow> CFStringCompare_CaseInsensitive_EqualTo x mimeType),
      mCreateDecoder = exampleDecoder openSucceeds True totalFrames\<rparr>"

text \<open>A subclass that takes every file, whatever its extension or MIME type.\<close>

definition catchAllSubclass :: "(bool, SInt64 \<times> SInt64) SubclassInfo" where
  "catchAllSubclass =
     \<lparr>mCreateSupportedFileExtensions = [],
      mCreateSupportedMIMETypes = [],
      mHandlesFilesWithExtension = (\<lambda>e. e \<noteq> None),
      mHandlesMIMEType = (\<lambda>m. m \<noteq> None),
      mCreateDecoder = exampleDecoder True True 0\<rparr>"

text \<open>A subclass for MP3 files with the handlers of \<^verbatim>\<open>MP3Metadata\<close>.\<close>

definition mp3Subclass :: "(bool, SInt64 \<times> SInt64) SubclassInfo" where
  "mp3Subclass =
     \<lparr>mCreateSupportedFileExtensions = [''mp3''],
      mCreateSupportedMIMETypes = [''audio/mpeg''],
      mHandlesFilesWithExtension = MP3Metadata_HandlesFilesWithExtension,
      mHandlesMIMEType = MP3Metadata_HandlesMIMEType,
      mCreateDecoder = exampleDecoder True True 1000\<rparr>"

text \<open>
  An MP3 subclass whose decoders fail to open, a subclass for WavPack files, and a subclass
  that takes MP3 files by their extension only.
\<close>

definition brokenMP3Subclass :: "(bool, SInt64 \<times> SInt64) SubclassInfo" where
  "brokenMP3Subclass = exampleSubclass ''mp3'' ''audio/mpeg'' False 500"

definition wavPackSubclass :: "(bool, SInt64 \<times> SInt64) SubclassInfo" where
  "wavPackSubclass = exampleSubclass ''wv'' ''audio/x-wavpack'' True 2000"

definition mp3ByExtensionSubclass :: "(bool, SInt64 \<times> SInt64) SubclassInfo" where
  "mp3ByExtensionSubclass = exampleSubclass ''mp3'' ''audio/x-mp3'' True 3000"



text \<open>A decoder that has been opened: the state \<^verbatim>\<open>Open\<close> leaves behind on a new decoder.\<close>

definition openedExample :: "bool \<Rightarrow> (bool, SInt64 \<times> SInt64) Decoder" where
  "openedExample closeSucceeds =
     fst (snd (Open (exampleDecoder True closeSucceeds 1000 (fileSource (Some songURL) False))
                 (ErrorSlot None)))"

section \<open>Evaluation of the examples\<close>

lemmas compare_simps =
  CFStringCompare_CaseInsensitive_EqualTo_def toLowerASCII_def char_of_def bit_Suc_0_iff

lemmas example_defs =
  exampleDecoder_def exampleHooks_def Decoder_ctor_def fileSource_def

lemmas source_defs = InputSource_IsOpen_def InputSource_Open_def InputSource_Close_def

lemmas subclass_defs =
  mp3Subclass_def brokenMP3Subclass_def wavPackSubclass_def exampleSubclass_def
  catchAllSubclass_def mp3ByExtensionSubclass_def MP3Metadata_HandlesFilesWithExtension_def
  MP3Metadata_HandlesMIMEType_def

lemma openedExample_eq:
  "openedExample c =
     \<lparr>mInputSource = fileSource (Some songURL) True, mIsOpen = True, mSubclass = (1000, 0),
      mHooks = exampleHooks True c, hookCalls = [Call_Open]\<rparr>"
  by (simp add: openedExample_def Open_def IsOpen_def logCall_def example_defs source_defs)

lemma Open_example:
  "Open (exampleDecoder ok c n (fileSource u True)) e =
     (if ok then
        (True,
         \<lparr>mInputSource = fileSource u True, mIsOpen = True, mSubclass = (n, 0),
          mHooks = exampleHooks ok c, hookCalls = [Call_Open]\<rparr>, e)
      else
        (False,
         \<lparr>mInputSource = fileSource u True, mIsOpen = False, mSubclass = (n, 0),
          mHooks = exampleHooks ok c, hookCalls = [Call_Open]\<rparr>,
         setError e (hookError ''Not a valid file'')))"
  by (simp add: Open_def IsOpen_def logCall_def example_defs source_defs)

lemma openInputSourceIfNeeded_fileSource:
  "openInputSourceIfNeeded a (fileSource u b) e = (True, fileSource u (a \<or> b), e)"
  by (cases a; cases b) (simp_all add: openInputSourceIfNeeded_def source_defs fileSource_def)


lemma handles_examples:
  "mHandlesMIMEType mp3Subclass (Some ''audio/mpeg'')"
  "mHandlesMIMEType brokenMP3Subclass (Some ''audio/mpeg'')"
  "\<not> mHandlesMIMEType wavPackSubclass (Some ''audio/mpeg'')"
  "mHandlesMIMEType wavPackSubclass (Some ''audio/x-wavpack'')"
  "\<not> mHandlesMIMEType mp3Subclass (Some ''audio/x-wavpack'')"
  "\<not> mHandlesMIMEType brokenMP3Subclass (Some ''audio/x-wavpack'')"
  "mHandlesFilesWithExtension mp3Subclass (Some ''mp3'')"
  "mHandlesFilesWithExtension brokenMP3Subclass (Some ''mp3'')"
  "\<not> mHandlesFilesWithExtension wavPackSubclass (Some ''mp3'')"
  "\<not> mHandlesMIMEType mp3ByExtensionSubclass (Some ''audio/mpeg'')"
  "mHandlesFilesWithExtension mp3ByExtensionSubclass (Some ''mp3'')"
  by (simp_all add: subclass_defs compare_simps)

lemma create_examples:
  "mCreateDecoder mp3Subclass = exampleDecoder True True 1000"
  "mCreateDecoder brokenMP3Subclass = exampleDecoder False True 500"
  "mCreateDecoder wavPackSubclass = exampleDecoder True True 2000"
  "mCreateDecoder catchAllSubclass = exampleDecoder True True 0"
  "mCreateDecoder mp3ByExtensionSubclass = exampleDecoder True True 3000"
  by (simp_all add: subclass_defs)

section \<open>The loops over the registered subclasses\<close>

text \<open>Subclasses that do not handle the type are passed over and leave no trace.\<close>

lemma mimeTypeLoop_skip:
  "\<forall>q\<in>set pre. \<not> mHandlesMIMEType q m \<Longrightarrow>
     mimeTypeLoop a m (pre @ rest) s e = mimeTypeLoop a m rest s e"
  by (induction pre) simp_all

lemma extensionLoop_skip:
  "\<forall>q\<in>set pre. \<not> mHandlesFilesWithExtension q x \<Longrightarrow>
     extensionLoop a x (pre @ rest) s e = extensionLoop a x rest s e"
  by (induction pre) simp_all

text \<open>
  With automatic opening, each loop of the source is the specification's scan over the
  subclasses that handle the type.
\<close>

lemma mimeTypeLoop_filter:
  "mimeTypeLoop True m reg s e
     = specAttemptInOrder (filter (\<lambda>p. mHandlesMIMEType p m) reg) s e"
  by (induction reg arbitrary: s e) (simp_all split: prod.splits)

lemma extensionLoop_filter:
  "extensionLoop True x reg s e
     = specAttemptInOrder (filter (\<lambda>p. mHandlesFilesWithExtension p x) reg) s e"
  by (induction reg arbitrary: s e) (simp_all split: prod.splits)




text \<open>
  When the input source is open already, \<^verbatim>\<open>Open\<close> does nothing to it but hand it to the
  subclass's hook.
\<close>

lemma Open_source_untouched:
  "\<not> IsOpen d \<Longrightarrow> InputSource_IsOpen (mInputSource d) \<Longrightarrow>
     mInputSource (fst (snd (Open d e)))
       = fst (snd (snd (hook_Open (mHooks d) (mSubclass d) (mInputSource d) e)))"
  by (simp add: Open_def logCall_def Let_def split: prod.splits)

lemma HandlesFilesWithExtension_loop_iff:
  "HandlesFilesWithExtension_loop reg x \<longleftrightarrow> (\<exists>p\<in>set reg. mHandlesFilesWithExtension p x)"
  by (induction reg) auto

lemma HandlesMIMEType_loop_iff:
  "HandlesMIMEType_loop reg m \<longleftrightarrow> (\<exists>p\<in>set reg. mHandlesMIMEType p m)"
  by (induction reg) auto

lemma compare_with_empty:
  "CFStringCompare_CaseInsensitive_EqualTo [] c \<longleftrightarrow> c = []"
  by (auto simp add: CFStringCompare_CaseInsensitive_EqualTo_def)

section \<open>The lifecycle of a decoder\<close>

text \<open>
  Claim C1, as amended.  \<^verbatim>\<open>Close\<close> on an open decoder calls the close hook and then closes
  the input source, whatever the hook returned; it returns true exactly when both
  succeeded.  The decoder leaves the open state exactly when the hook succeeded: the
  assignment \<^verbatim>\<open>mIsOpen = false\<close> stands under \<^verbatim>\<open>if(result)\<close>.
\<close>

theorem close_of_open_decoder:
  assumes "IsOpen d"
    and "hook_Close (mHooks d) (mSubclass d) (mInputSource d) error
           = (hookResult, members, src1, error1)"
    and "InputSource_Close src1 error1 = (sourceResult, src2, error2)"
  shows "Close d error =
           (hookResult \<and> sourceResult,
            d\<lparr>mInputSource := src2, mSubclass := members, mIsOpen := \<not> hookResult,
              hookCalls := hookCalls d @ [Call_Close]\<rparr>,
            error2)"
  using assms
  by (cases hookResult; cases sourceResult) (simp_all add: Close_def IsOpen_def logCall_def)

theorem close_of_open_decoder_witness:
  "IsOpen (openedExample False)
   \<and> Close (openedExample False) (ErrorSlot None) =
       (False,
        (openedExample False)\<lparr>mInputSource := fileSource (Some songURL) False,
           mSubclass := (1000, 0), mIsOpen := True, hookCalls := [Call_Open, Call_Close]\<rparr>,
        ErrorSlot (Some (hookError ''Close failed'')))
   \<and> IsOpen (openedExample True)
   \<and> Close (openedExample True) (ErrorSlot None) =
       (True,
        (openedExample True)\<lparr>mInputSource := fileSource (Some songURL) False,
           mSubclass := (1000, 0), mIsOpen := False, hookCalls := [Call_Open, Call_Close]\<rparr>,
        ErrorSlot None)"
proof -
  have o: "IsOpen (openedExample c)" for c
    by (simp add: openedExample_eq IsOpen_def)
  have h1: "hook_Close (mHooks (openedExample False)) (mSubclass (openedExample False))
              (mInputSource (openedExample False)) (ErrorSlot None)
            = (False, (1000, 0), fileSource (Some songURL) True,
               ErrorSlot (Some (hookError ''Close failed'')))"
    by (simp add: openedExample_eq exampleHooks_def)
  have h2: "hook_Close (mHooks (openedExample True)) (mSubclass (openedExample True))
              (mInputSource (openedExample True)) (ErrorSlot None)
            = (True, (1000, 0), fileSource (Some songURL) True, ErrorSlot None)"
    by (simp add: openedExample_eq exampleHooks_def)
  have s: "InputSource_Close (fileSource (Some songURL) True) e
            = (True, fileSource (Some songURL) False, e)" for e
    by (simp add: source_defs fileSource_def)
  from close_of_open_decoder [OF o h1 s] close_of_open_decoder [OF o h2 s] o
  show ?thesis by (simp add: openedExample_eq)
qed

text \<open>
  Claim C1 as it is stated fails: an open decoder whose close hook fails is still open
  after \<^verbatim>\<open>Close\<close> has returned false.
\<close>

theorem close_hook_failure_counterexample:
  "IsOpen (openedExample False)
   \<and> fst (Close (openedExample False) (ErrorSlot None)) = False
   \<and> IsOpen (fst (snd (Close (openedExample False) (ErrorSlot None))))"
  by (simp add: openedExample_eq Close_def IsOpen_def logCall_def example_defs source_defs)

text \<open>
  Claim C4.  A decoder that is not open answers every audio call with its sentinel:
  \<^verbatim>\<open>ReadAudio\<close> returns 0, \<^verbatim>\<open>GetTotalFrames\<close>, \<^verbatim>\<open>GetCurrentFrame\<close> and \<^verbatim>\<open>SeekToFrame\<close>
  return -1 and \<^verbatim>\<open>SupportsSeeking\<close> returns false, for all arguments.  Each call leaves
  the decoder as it was, the list of hook calls included: no hook is invoked.
\<close>

theorem closed_decoder_safety:
  "\<not> IsOpen d \<Longrightarrow>
     ReadAudio d bufferList frameCount = (0, d, bufferList)
     \<and> GetTotalFrames d = (- 1, d)
     \<and> GetCurrentFrame d = (- 1, d)
     \<and> SeekToFrame d frame = (- 1, d)
     \<and> SupportsSeeking d = (False, d)"
  by (simp add: ReadAudio_def GetTotalFrames_def GetCurrentFrame_def SeekToFrame_def
      SupportsSeeking_def)

theorem closed_decoder_safety_witness:
  "\<not> IsOpen (exampleDecoder True True 1000 (fileSource (Some songURL) False))
   \<and> ReadAudio (exampleDecoder True True 1000 (fileSource (Some songURL) False))
        (Some (AudioBufferList [[0, 0]])) 512
      = (0, exampleDecoder True True 1000 (fileSource (Some songURL) False),
         Some (AudioBufferList [[0, 0]]))
   \<and> GetTotalFrames (exampleDecoder True True 1000 (fileSource (Some songURL) False))
      = (- 1, exampleDecoder True True 1000 (fileSource (Some songURL) False))
   \<and> GetCurrentFrame (exampleDecoder True True 1000 (fileSource (Some songURL) False))
      = (- 1, exampleDecoder True True 1000 (fileSource (Some songURL) False))
   \<and> SeekToFrame (exampleDecoder True True 1000 (fileSource (Some songURL) False)) 10
      = (- 1, exampleDecoder True True 1000 (fileSource (Some songURL) False))
   \<and> SupportsSeeking (exampleDecoder True True 1000 (fileSource (Some songURL) False))
      = (False, exampleDecoder True True 1000 (fileSource (Some songURL) False))"
proof -
  have closed: "\<not> IsOpen (exampleDecoder True True 1000 (fileSource (Some songURL) False))"
    by (simp add: IsOpen_def example_defs)
  from closed_decoder_safety [OF closed] closed show ?thesis by blast
qed

text \<open>
  Claim C5.  \<^verbatim>\<open>Open\<close> on a decoder that is open, and \<^verbatim>\<open>Close\<close> on a decoder that is not,
  return true and change nothing: the decoder (its hook calls included) and the error slot
  come back as they went in.
\<close>

theorem open_close_idempotent:
  "IsOpen d \<Longrightarrow> \<not> IsOpen d' \<Longrightarrow>
     Open d error = (True, d, error) \<and> Close d' error' = (True, d', error')"
  by (simp add: Open_def Close_def)

theorem open_close_idempotent_witness:
  "IsOpen (openedExample True)
   \<and> \<not> IsOpen (exampleDecoder True True 1000 (fileSource (Some songURL) False))
   \<and> Open (openedExample True) (ErrorSlot None) = (True, openedExample True, ErrorSlot None)
   \<and> Close (exampleDecoder True True 1000 (fileSource (Some songURL) False)) NullErrorPtr
      = (True, exampleDecoder True True 1000 (fileSource (Some songURL) False), NullErrorPtr)"
proof -
  have o: "IsOpen (openedExample True)"
    by (simp add: openedExample_eq IsOpen_def)
  have c: "\<not> IsOpen (exampleDecoder True True 1000 (fileSource (Some songURL) False))"
    by (simp add: IsOpen_def example_defs)
  from open_close_idempotent [OF o c, of "ErrorSlot None" NullErrorPtr] o c
  show ?thesis by blast
qed

text \<open>
  Claim C7.  On an open decoder, \<^verbatim>\<open>SeekToFrame(frame)\<close> with a negative frame, or with a
  frame not below \<^verbatim>\<open>GetTotalFrames()\<close>, returns -1; the seek hook is not among the hooks it
  calls, and the subclass's members and the input source stay as they were.  With a frame
  from 0 up to, but not including, the total it calls the seek hook and returns what the
  hook returns, the members and the source being those the hook leaves.  Comparisons are
  signed.
\<close>

theorem seek_to_frame_of_open_decoder:
  assumes "IsOpen d"
  shows "(word_sless frame 0 \<or> word_sle (fst (GetTotalFrames d)) frame \<longrightarrow>
            fst (SeekToFrame d frame) = - 1
            \<and> (\<forall>f. Call_SeekToFrame f \<notin> set (drop (length (hookCalls d))
                     (hookCalls (snd (SeekToFrame d frame)))))
            \<and> mSubclass (snd (SeekToFrame d frame)) = mSubclass d
            \<and> mInputSource (snd (SeekToFrame d frame)) = mInputSource d)
       \<and> (\<not> word_sless frame 0 \<and> word_sless frame (fst (GetTotalFrames d)) \<longrightarrow>
            (case hook_SeekToFrame (mHooks d) (mSubclass d) (mInputSource d) frame of
               (result, members, src) \<Rightarrow>
                 SeekToFrame d frame =
                   (result,
                    d\<lparr>mInputSource := src, mSubclass := members,
                      hookCalls := hookCalls d @ [Call_GetTotalFrames, Call_SeekToFrame frame]\<rparr>)))"
  using assms
  by (auto simp add: SeekToFrame_def GetTotalFrames_def IsOpen_def logCall_def
      word_sless_alt word_sle_eq split: prod.splits)

theorem seek_to_frame_of_open_decoder_witness:
  "IsOpen (openedExample True)
   \<and> fst (GetTotalFrames (openedExample True)) = 1000
   \<and> fst (SeekToFrame (openedExample True) (- 5)) = - 1
   \<and> hookCalls (snd (SeekToFrame (openedExample True) (- 5))) = [Call_Open]
   \<and> fst (SeekToFrame (openedExample True) 1000) = - 1
   \<and> hookCalls (snd (SeekToFrame (openedExample True) 1000)) = [Call_Open, Call_GetTotalFrames]
   \<and> SeekToFrame (openedExample True) 999 =
       (999, (openedExample True)\<lparr>mInputSource := fileSource (Some songURL) True,
               mSubclass := (1000, 999),
               hookCalls := [Call_Open, Call_GetTotalFrames, Call_SeekToFrame 999]\<rparr>)"
proof -
  have o: "IsOpen (openedExample True)"
    by (simp add: openedExample_eq IsOpen_def)
  have t: "fst (GetTotalFrames (openedExample True)) = 1000"
    by (simp add: GetTotalFrames_def IsOpen_def openedExample_eq exampleHooks_def)
  have neg: "word_sless (- 5 :: SInt64) 0"
    by (simp add: word_sless_alt)
  have big: "word_sle (1000 :: SInt64) 1000"
    by simp
  have inside: "\<not> word_sless (999 :: SInt64) 0 \<and> word_sless (999 :: SInt64) 1000"
    by (simp add: word_sless_alt)
  have l1: "hookCalls (snd (SeekToFrame (openedExample True) (- 5))) = [Call_Open]"
    using neg by (simp add: SeekToFrame_def IsOpen_def openedExample_eq)
  have l2: "hookCalls (snd (SeekToFrame (openedExample True) 1000))
              = [Call_Open, Call_GetTotalFrames]"
    by (simp add: SeekToFrame_def GetTotalFrames_def IsOpen_def logCall_def openedExample_eq
        exampleHooks_def word_sless_alt)
  from seek_to_frame_of_open_decoder [OF o, of "- 5"] neg
  have a: "fst (SeekToFrame (openedExample True) (- 5)) = - 1" by blast
  from seek_to_frame_of_open_decoder [OF o, of 1000] big t
  have b: "fst (SeekToFrame (openedExample True) 1000) = - 1" by simp
  from seek_to_frame_of_open_decoder [OF o, of 999] inside t
  have c: "SeekToFrame (openedExample True) 999 =
       (999, (openedExample True)\<lparr>mInputSource := fileSource (Some songURL) True,
               mSubclass := (1000, 999),
               hookCalls := [Call_Open, Call_GetTotalFrames, Call_SeekToFrame 999]\<rparr>)"
    by (simp add: openedExample_eq exampleHooks_def)
  from o t a l1 b l2 c show ?thesis by blast
qed

section \<open>The registry's capability queries\<close>

text \<open>
  Claim C8, as amended.  \<^verbatim>\<open>HandlesFilesWithExtension\<close> and \<^verbatim>\<open>HandlesMIMEType\<close> return true
  exactly when the argument is not null and the handler of some registered subclass
  accepts it; a subclass that accepts it decides the answer whatever is registered after
  it; a null argument gives false.  The empty string has no test of its own: it is put to
  the handlers like any other string, so the answer for it is false exactly when no
  handler accepts it.  A handler that compares with a constant that is not empty, as those
  of \<^verbatim>\<open>MP3Metadata\<close> do without regard to case, rejects it.
\<close>

theorem registry_capability_queries:
  "HandlesFilesWithExtension reg extension
     = (extension \<noteq> None \<and> (\<exists>p\<in>set reg. mHandlesFilesWithExtension p extension))
   \<and> HandlesMIMEType reg mimeType
     = (mimeType \<noteq> None \<and> (\<exists>p\<in>set reg. mHandlesMIMEType p mimeType))
   \<and> (mHandlesFilesWithExtension first (Some e) \<longrightarrow>
        HandlesFilesWithExtension (pre @ first # post) (Some e))
   \<and> (mHandlesMIMEType first (Some m) \<longrightarrow> HandlesMIMEType (pre @ first # post) (Some m))
   \<and> \<not> HandlesFilesWithExtension reg None
   \<and> \<not> HandlesMIMEType reg None
   \<and> HandlesFilesWithExtension reg (Some [])
       = (\<exists>p\<in>set reg. mHandlesFilesWithExtension p (Some []))
   \<and> HandlesMIMEType reg (Some []) = (\<exists>p\<in>set reg. mHandlesMIMEType p (Some []))
   \<and> (constant \<noteq> [] \<longrightarrow> \<not> CFStringCompare_CaseInsensitive_EqualTo [] constant)
   \<and> \<not> MP3Metadata_HandlesFilesWithExtension (Some [])
   \<and> \<not> MP3Metadata_HandlesMIMEType (Some [])"
  by (auto simp add: HandlesFilesWithExtension_def HandlesMIMEType_def
      HandlesFilesWithExtension_loop_iff HandlesMIMEType_loop_iff compare_with_empty
      MP3Metadata_HandlesFilesWithExtension_def MP3Metadata_HandlesMIMEType_def)

theorem registry_capability_queries_witness:
  "HandlesFilesWithExtension [wavPackSubclass, mp3Subclass] (Some ''MP3'')
   \<and> HandlesMIMEType [wavPackSubclass, mp3Subclass] (Some ''Audio/MPEG'')
   \<and> \<not> HandlesFilesWithExtension [wavPackSubclass, mp3Subclass] (Some ''flac'')
   \<and> \<not> HandlesMIMEType [wavPackSubclass, mp3Subclass] (Some ''audio/flac'')
   \<and> \<not> HandlesFilesWithExtension [wavPackSubclass, mp3Subclass] None
   \<and> \<not> HandlesMIMEType [wavPackSubclass, mp3Subclass] None
   \<and> \<not> HandlesFilesWithExtension [wavPackSubclass, mp3Subclass] (Some [])
   \<and> \<not> HandlesMIMEType [wavPackSubclass, mp3Subclass] (Some [])
   \<and> \<not> CFStringCompare_CaseInsensitive_EqualTo [] ''mp3''"
proof -
  have h: "mHandlesFilesWithExtension mp3Subclass (Some ''MP3'')"
    "mHandlesMIMEType mp3Subclass (Some ''Audio/MPEG'')"
    by (simp_all add: subclass_defs compare_simps)
  have n: "\<not> mHandlesFilesWithExtension mp3Subclass (Some ''flac'')"
    "\<not> mHandlesFilesWithExtension wavPackSubclass (Some ''flac'')"
    "\<not> mHandlesMIMEType mp3Subclass (Some ''audio/flac'')"
    "\<not> mHandlesMIMEType wavPackSubclass (Some ''audio/flac'')"
    "\<not> mHandlesFilesWithExtension mp3Subclass (Some [])"
    "\<not> mHandlesFilesWithExtension wavPackSubclass (Some [])"
    "\<not> mHandlesMIMEType mp3Subclass (Some [])"
    "\<not> mHandlesMIMEType wavPackSubclass (Some [])"
    by (simp_all add: subclass_defs compare_simps)
  note t = registry_capability_queries
    [of "[wavPackSubclass, mp3Subclass]" "Some ''flac''" "Some ''audio/flac''" mp3Subclass
        "''MP3''" "[wavPackSubclass]" "[]" "''Audio/MPEG''" "''mp3''"]
  from t h(1) have a: "HandlesFilesWithExtension [wavPackSubclass, mp3Subclass] (Some ''MP3'')"
    by simp
  from t h(2) have b: "HandlesMIMEType [wavPackSubclass, mp3Subclass] (Some ''Audio/MPEG'')"
    by simp
  from t n have c: "\<not> HandlesFilesWithExtension [wavPackSubclass, mp3Subclass] (Some ''flac'')"
    by simp
  from t n have d: "\<not> HandlesMIMEType [wavPackSubclass, mp3Subclass] (Some ''audio/flac'')"
    by simp
  from t have e: "\<not> HandlesFilesWithExtension [wavPackSubclass, mp3Subclass] None"
    by blast
  from t have e': "\<not> HandlesMIMEType [wavPackSubclass, mp3Subclass] None"
    by blast
  from t n have f: "\<not> HandlesFilesWithExtension [wavPackSubclass, mp3Subclass] (Some [])"
    by simp
  from t n have f': "\<not> HandlesMIMEType [wavPackSubclass, mp3Subclass] (Some [])"
    by simp
  from t have g: "\<not> CFStringCompare_CaseInsensitive_EqualTo [] ''mp3''"
    by simp
  from a b c d e e' f f' g show ?thesis by blast
qed

text \<open>
  Claim C8 as it is stated fails: with a registered subclass that takes every file, both
  queries return true for the empty string.
\<close>

theorem empty_string_counterexample:
  "HandlesFilesWithExtension [catchAllSubclass] (Some []) = True
   \<and> HandlesMIMEType [catchAllSubclass] (Some []) = True"
  by (simp add: HandlesFilesWithExtension_def HandlesMIMEType_def catchAllSubclass_def)

section \<open>Resolution\<close>





text \<open>
  Claim C3.  With decoders opened automatically and the input source ready, resolution
  with a MIME type is the specification's scan: the subclasses that handle the MIME type
  are tried in registration order, each decoder that fails to open gives its input source
  back and the next subclass is handed that source; when none has opened, the subclasses
  that handle the path extension are tried in the same way on the source that came back
  last.  In each loop the subclass after a failure gets \<open>mInputSource\<close> of the failed
  decoder, and a failed \<^verbatim>\<open>Open\<close> of a decoder whose source was open leaves in
  \<open>mInputSource\<close> the source as the open hook left it: the resolver and the base class
  neither close it nor drop it.
\<close>

theorem open_failure_reclaims_source:
  assumes "openInputSourceIfNeeded True src error = (True, src1, error1)"
  shows "CreateDecoderForInputSource reg True (Some src) (Some mime) error =
           (case specAttemptInOrder (filter (\<lambda>p. mHandlesMIMEType p (Some mime)) reg)
                   src1 error1 of
              LoopReturn d e \<Rightarrow> (Some d, e)
            | LoopEnd s e \<Rightarrow>
                (case GetURL s of
                   None \<Rightarrow> (None, e)
                 | Some u \<Rightarrow>
                     (case CFURLCopyPathExtension u of
                        None \<Rightarrow> (None, setError e (unknownFileTypeError u))
                      | Some x \<Rightarrow>
                          (case specAttemptInOrder
                                  (filter (\<lambda>p. mHandlesFilesWithExtension p (Some x)) reg) s e of
                             LoopReturn d e' \<Rightarrow> (Some d, e')
                           | LoopEnd s' e' \<Rightarrow> (None, e')))))
       \<and> ((\<forall>q\<in>set pre. \<not> mHandlesMIMEType q (Some mime)) \<and> mHandlesMIMEType p (Some mime)
            \<and> Open (mCreateDecoder p s0) e0 = (False, failed, e1) \<longrightarrow>
          mimeTypeLoop True (Some mime) (pre @ p # post) s0 e0
            = mimeTypeLoop True (Some mime) post (mInputSource failed) e1)
       \<and> ((\<forall>q\<in>set pre. \<not> mHandlesFilesWithExtension q (Some ext))
            \<and> mHandlesFilesWithExtension p (Some ext)
            \<and> Open (mCreateDecoder p s0) e0 = (False, failed, e1) \<longrightarrow>
          extensionLoop True (Some ext) (pre @ p # post) s0 e0
            = extensionLoop True (Some ext) post (mInputSource failed) e1)
       \<and> (\<not> IsOpen d \<and> InputSource_IsOpen (mInputSource d) \<longrightarrow>
          mInputSource (fst (snd (Open d e2)))
            = fst (snd (snd (hook_Open (mHooks d) (mSubclass d) (mInputSource d) e2))))"
proof (intro conjI impI)
  show "CreateDecoderForInputSource reg True (Some src) (Some mime) error =
           (case specAttemptInOrder (filter (\<lambda>p. mHandlesMIMEType p (Some mime)) reg)
                   src1 error1 of
              LoopReturn d e \<Rightarrow> (Some d, e)
            | LoopEnd s e \<Rightarrow>
                (case GetURL s of
                   None \<Rightarrow> (None, e)
                 | Some u \<Rightarrow>
                     (case CFURLCopyPathExtension u of
                        None \<Rightarrow> (None, setError e (unknownFileTypeError u))
                      | Some x \<Rightarrow>
                          (case specAttemptInOrder
                                  (filter (\<lambda>p. mHandlesFilesWithExtension p (Some x)) reg) s e of
                             LoopReturn d e' \<Rightarrow> (Some d, e')
                           | LoopEnd s' e' \<Rightarrow> (None, e')))))"
    using assms
    by (simp add: CreateDecoderForInputSource_def extensionBasedResolvers_def
        mimeTypeLoop_filter extensionLoop_filter
        split: LoopResult.splits option.splits)
next
  assume "(\<forall>q\<in>set pre. \<not> mHandlesMIMEType q (Some mime)) \<and> mHandlesMIMEType p (Some mime)
            \<and> Open (mCreateDecoder p s0) e0 = (False, failed, e1)"
  then show "mimeTypeLoop True (Some mime) (pre @ p # post) s0 e0
            = mimeTypeLoop True (Some mime) post (mInputSource failed) e1"
    by (simp add: mimeTypeLoop_skip)
next
  assume "(\<forall>q\<in>set pre. \<not> mHandlesFilesWithExtension q (Some ext))
            \<and> mHandlesFilesWithExtension p (Some ext)
            \<and> Open (mCreateDecoder p s0) e0 = (False, failed, e1)"
  then show "extensionLoop True (Some ext) (pre @ p # post) s0 e0
            = extensionLoop True (Some ext) post (mInputSource failed) e1"
    by (simp add: extensionLoop_skip)
next
  assume "\<not> IsOpen d \<and> InputSource_IsOpen (mInputSource d)"
  then show "mInputSource (fst (snd (Open d e2)))
            = fst (snd (snd (hook_Open (mHooks d) (mSubclass d) (mInputSource d) e2)))"
    by (simp add: Open_source_untouched)
qed

theorem open_failure_reclaims_source_witness:
  "CreateDecoderForInputSource [brokenMP3Subclass, wavPackSubclass, mp3Subclass] True
       (Some (fileSource (Some songURL) False)) (Some ''audio/mpeg'') (ErrorSlot None)
     = (Some \<lparr>mInputSource = fileSource (Some songURL) True, mIsOpen = True,
              mSubclass = (1000, 0), mHooks = exampleHooks True True,
              hookCalls = [Call_Open]\<rparr>,
        ErrorSlot (Some (hookError ''Not a valid file'')))
   \<and> CreateDecoderForInputSource [brokenMP3Subclass, mp3ByExtensionSubclass] True
       (Some (fileSource (Some songURL) False)) (Some ''audio/mpeg'') (ErrorSlot None)
     = (Some \<lparr>mInputSource = fileSource (Some songURL) True, mIsOpen = True,
              mSubclass = (3000, 0), mHooks = exampleHooks True True,
              hookCalls = [Call_Open]\<rparr>,
        ErrorSlot (Some (hookError ''Not a valid file'')))
   \<and> mimeTypeLoop True (Some ''audio/mpeg'')
       ([wavPackSubclass] @ brokenMP3Subclass # [mp3Subclass])
       (fileSource (Some songURL) True) (ErrorSlot None)
     = mimeTypeLoop True (Some ''audio/mpeg'') [mp3Subclass]
         (fileSource (Some songURL) True) (ErrorSlot (Some (hookError ''Not a valid file'')))
   \<and> extensionLoop True (Some ''mp3'')
       ([wavPackSubclass] @ brokenMP3Subclass # [mp3Subclass])
       (fileSource (Some songURL) True) (ErrorSlot None)
     = extensionLoop True (Some ''mp3'') [mp3Subclass]
         (fileSource (Some songURL) True) (ErrorSlot (Some (hookError ''Not a valid file'')))
   \<and> mInputSource (fst (snd (Open (exampleDecoder False True 500 (fileSource (Some songURL) True))
                                 (ErrorSlot None))))
     = fileSource (Some songURL) True
   \<and> InputSource_IsOpen (fileSource (Some songURL) True)"
proof -
  have prep: "openInputSourceIfNeeded True (fileSource (Some songURL) False) (ErrorSlot None)
               = (True, fileSource (Some songURL) True, ErrorSlot None)"
    by (simp add: openInputSourceIfNeeded_fileSource)
  have u: "GetURL (fileSource (Some songURL) True) = Some songURL"
    "CFURLCopyPathExtension songURL = Some ''mp3''"
    by (simp_all add: fileSource_def songURL_def)
  have skipM: "\<forall>q\<in>set [wavPackSubclass]. \<not> mHandlesMIMEType q (Some ''audio/mpeg'')"
    and skipX: "\<forall>q\<in>set [wavPackSubclass]. \<not> mHandlesFilesWithExtension q (Some ''mp3'')"
    by (simp_all add: handles_examples)
  have fails: "Open (mCreateDecoder brokenMP3Subclass (fileSource (Some songURL) True))
                 (ErrorSlot None)
               = (False,
                  \<lparr>mInputSource = fileSource (Some songURL) True, mIsOpen = False,
                   mSubclass = (500, 0), mHooks = exampleHooks False True,
                   hookCalls = [Call_Open]\<rparr>,
                  ErrorSlot (Some (hookError ''Not a valid file'')))"
    by (simp add: create_examples Open_example)
  have closed: "\<not> IsOpen (exampleDecoder False True 500 (fileSource (Some songURL) True))"
    and srcOpen: "InputSource_IsOpen
                    (mInputSource (exampleDecoder False True 500 (fileSource (Some songURL) True)))"
    by (simp_all add: IsOpen_def example_defs source_defs)
  have isOpen: "InputSource_IsOpen (fileSource (Some songURL) True)"
    by (simp add: source_defs fileSource_def)
  note thm1 = open_failure_reclaims_source [OF prep,
      of "[brokenMP3Subclass, wavPackSubclass, mp3Subclass]" "''audio/mpeg''"
         "[wavPackSubclass]" brokenMP3Subclass "fileSource (Some songURL) True" "ErrorSlot None"
         _ _ "[mp3Subclass]" "''mp3''"
         "exampleDecoder False True 500 (fileSource (Some songURL) True)" "ErrorSlot None"]
  note thm2 = open_failure_reclaims_source [OF prep,
      of "[brokenMP3Subclass, mp3ByExtensionSubclass]" "''audio/mpeg''"]
  have c1: "CreateDecoderForInputSource [brokenMP3Subclass, wavPackSubclass, mp3Subclass] True
       (Some (fileSource (Some songURL) False)) (Some ''audio/mpeg'') (ErrorSlot None)
     = (Some \<lparr>mInputSource = fileSource (Some songURL) True, mIsOpen = True,
              mSubclass = (1000, 0), mHooks = exampleHooks True True,
              hookCalls = [Call_Open]\<rparr>,
        ErrorSlot (Some (hookError ''Not a valid file'')))"
    using thm1 [THEN conjunct1]
    by (simp add: handles_examples create_examples Open_example)
  have c2: "CreateDecoderForInputSource [brokenMP3Subclass, mp3ByExtensionSubclass] True
       (Some (fileSource (Some songURL) False)) (Some ''audio/mpeg'') (ErrorSlot None)
     = (Some \<lparr>mInputSource = fileSource (Some songURL) True, mIsOpen = True,
              mSubclass = (3000, 0), mHooks = exampleHooks True True,
              hookCalls = [Call_Open]\<rparr>,
        ErrorSlot (Some (hookError ''Not a valid file'')))"
    using thm2 [THEN conjunct1]
    by (simp add: handles_examples create_examples Open_example u)
  have c3: "mimeTypeLoop True (Some ''audio/mpeg'')
       ([wavPackSubclass] @ brokenMP3Subclass # [mp3Subclass])
       (fileSource (Some songURL) True) (ErrorSlot None)
     = mimeTypeLoop True (Some ''audio/mpeg'') [mp3Subclass]
         (fileSource (Some songURL) True) (ErrorSlot (Some (hookError ''Not a valid file'')))"
    using thm1 [THEN conjunct2, THEN conjunct1] skipM fails
    by (simp add: handles_examples)
  have c4: "extensionLoop True (Some ''mp3'')
       ([wavPackSubclass] @ brokenMP3Subclass # [mp3Subclass])
       (fileSource (Some songURL) True) (ErrorSlot None)
     = extensionLoop True (Some ''mp3'') [mp3Subclass]
         (fileSource (Some songURL) True) (ErrorSlot (Some (hookError ''Not a valid file'')))"
    using thm1 [THEN conjunct2, THEN conjunct2, THEN conjunct1] skipX fails
    by (simp add: handles_examples)
  have c5: "mInputSource (fst (snd (Open (exampleDecoder False True 500 (fileSource (Some songURL) True))
                                 (ErrorSlot None))))
     = fileSource (Some songURL) True"
    using thm1 [THEN conjunct2, THEN conjunct2, THEN conjunct2] closed srcOpen
    by (simp add: example_defs)
  from c1 c2 c3 c4 c5 isOpen show ?thesis by blast
qed

text \<open>
  Claim C6, as amended.  Let resolution reach the resolvers by extension: no MIME type was
  given, or the scan by MIME type ran to its end.  When the input source has no URL, the
  resolver returns no decoder and leaves the error slot as it is.  When the URL has no
  path extension, it returns no decoder and, if the caller passed an error slot, stores
  there the error for that URL whose failure reason is ``Unknown file type''.
\<close>

theorem unknown_file_type:
  assumes prep: "openInputSourceIfNeeded autoOpen src error = (True, src1, error1)"
    and reached: "(if mimeType \<noteq> None then mimeTypeLoop autoOpen mimeType reg src1 error1
                   else LoopEnd src1 error1) = LoopEnd src2 error2"
  shows "(GetURL src2 = None \<longrightarrow>
            CreateDecoderForInputSource reg autoOpen (Some src) mimeType error = (None, error2))
       \<and> (GetURL src2 = Some url \<and> CFURLCopyPathExtension url = None \<longrightarrow>
            CreateDecoderForInputSource reg autoOpen (Some src) mimeType error
              = (None, setError error2 (unknownFileTypeError url))
            \<and> (\<forall>old. error2 = ErrorSlot old \<longrightarrow>
                  setError error2 (unknownFileTypeError url)
                    = ErrorSlot (Some (unknownFileTypeError url)))
            \<and> (error2 = NullErrorPtr \<longrightarrow>
                  setError error2 (unknownFileTypeError url) = NullErrorPtr)
            \<and> errFailureReason (unknownFileTypeError url) = ''Unknown file type''
            \<and> errURL (unknownFileTypeError url) = url)"
  using prep reached
  by (auto simp add: CreateDecoderForInputSource_def extensionBasedResolvers_def
      unknownFileTypeError_def CFCopyLocalizedString_def)

theorem unknown_file_type_witness:
  "CreateDecoderForInputSource [mp3Subclass, wavPackSubclass] False
       (Some (fileSource None False)) None (ErrorSlot None) = (None, ErrorSlot None)
   \<and> CreateDecoderForInputSource [mp3Subclass, wavPackSubclass] False
       (Some (fileSource (Some streamURL) False)) None (ErrorSlot None)
     = (None, ErrorSlot (Some (unknownFileTypeError streamURL)))
   \<and> CreateDecoderForInputSource [brokenMP3Subclass] True
       (Some (fileSource (Some streamURL) False)) (Some ''audio/mpeg'') (ErrorSlot None)
     = (None, ErrorSlot (Some (unknownFileTypeError streamURL)))
   \<and> CreateDecoderForInputSource [mp3Subclass, wavPackSubclass] False
       (Some (fileSource (Some streamURL) False)) None NullErrorPtr = (None, NullErrorPtr)
   \<and> errFailureReason (unknownFileTypeError streamURL) = ''Unknown file type''"
proof -
  have prep: "openInputSourceIfNeeded a (fileSource u False) e = (True, fileSource u a, e)"
    for a u e
    by (simp add: openInputSourceIfNeeded_fileSource)
  have noMIME: "(if (None :: string option) \<noteq> None
                 then mimeTypeLoop False None [mp3Subclass, wavPackSubclass] (fileSource u False) e
                 else LoopEnd (fileSource u False) e) = LoopEnd (fileSource u False) e" for u e
    by simp
  have exhausted: "(if Some ''audio/mpeg'' \<noteq> None
                    then mimeTypeLoop True (Some ''audio/mpeg'') [brokenMP3Subclass]
                           (fileSource (Some streamURL) True) (ErrorSlot None)
                    else LoopEnd (fileSource (Some streamURL) True) (ErrorSlot None))
                   = LoopEnd (fileSource (Some streamURL) True)
                       (ErrorSlot (Some (hookError ''Not a valid file'')))"
    by (simp add: handles_examples create_examples Open_example)
  have u0: "GetURL (fileSource None a) = None" for a
    by (simp add: fileSource_def)
  have u1: "GetURL (fileSource (Some streamURL) a) = Some streamURL
            \<and> CFURLCopyPathExtension streamURL = None" for a
    by (simp add: fileSource_def streamURL_def)
  from unknown_file_type [OF prep noMIME, THEN conjunct1] u0
  have a: "CreateDecoderForInputSource [mp3Subclass, wavPackSubclass] False
       (Some (fileSource None False)) None (ErrorSlot None) = (None, ErrorSlot None)"
    by blast
  from unknown_file_type [OF prep noMIME, THEN conjunct2, of "Some streamURL" streamURL
      "ErrorSlot None"] u1
  have b: "CreateDecoderForInputSource [mp3Subclass, wavPackSubclass] False
       (Some (fileSource (Some streamURL) False)) None (ErrorSlot None)
     = (None, ErrorSlot (Some (unknownFileTypeError streamURL)))"
    and r: "errFailureReason (unknownFileTypeError streamURL) = ''Unknown file type''"
    by simp_all
  from unknown_file_type [OF prep exhausted, THEN conjunct2, of streamURL] u1
  have c: "CreateDecoderForInputSource [brokenMP3Subclass] True
       (Some (fileSource (Some streamURL) False)) (Some ''audio/mpeg'') (ErrorSlot None)
     = (None, ErrorSlot (Some (unknownFileTypeError streamURL)))"
    by simp
  from unknown_file_type [OF prep noMIME, THEN conjunct2, of "Some streamURL" streamURL
      NullErrorPtr] u1
  have d: "CreateDecoderForInputSource [mp3Subclass, wavPackSubclass] False
       (Some (fileSource (Some streamURL) False)) None NullErrorPtr = (None, NullErrorPtr)"
    by simp
  from a b c d r show ?thesis by blast
qed

text \<open>
  Claim C6 as it is stated fails for a source without a URL: the resolver returns no
  decoder and the caller's error slot is still empty.
\<close>

theorem no_locator_counterexample:
  "GetURL (fileSource None False) = None
   \<and> CreateDecoderForInputSource [mp3Subclass, wavPackSubclass] False
        (Some (fileSource None False)) None (ErrorSlot None) = (None, ErrorSlot None)"
  by (simp add: CreateDecoderForInputSource_def extensionBasedResolvers_def
      openInputSourceIfNeeded_def fileSource_def)

text \<open>
  Claim C9.  With a null input source the resolver returns null and the error slot as it
  was, for every list of registered subclasses, every MIME type and both values of the
  automatic-opening flag: nothing is looked up and no decoder is constructed.  The region
  constructors return null for a null input source and for a null decoder.
\<close>

theorem null_input_source:
  "CreateDecoderForInputSource reg autoOpen None mimeType error = (None, error)
   \<and> CreateDecoderForInputSourceRegion_1 reg autoOpen None startingFrame error = (None, error)
   \<and> CreateDecoderForInputSourceRegion_2 reg autoOpen None startingFrame frameCount error
       = (None, error)
   \<and> CreateDecoderForInputSourceRegion_3 reg autoOpen None startingFrame frameCount repeatCount
         error = (None, error)
   \<and> CreateDecoderForDecoderRegion_1 None startingFrame error = (None, error)
   \<and> CreateDecoderForDecoderRegion_2 None startingFrame frameCount error = (None, error)
   \<and> CreateDecoderForDecoderRegion_3 None startingFrame frameCount repeatCount error
       = (None, error)"
  by (simp add: CreateDecoderForInputSource_def
      CreateDecoderForInputSourceRegion_1_def CreateDecoderForInputSourceRegion_2_def
      CreateDecoderForInputSourceRegion_3_def CreateDecoderForDecoderRegion_1_def
      CreateDecoderForDecoderRegion_2_def CreateDecoderForDecoderRegion_3_def)

text \<open>
  Claim C10.  The overloads without a MIME type give what the overloads with a MIME type
  give for a null MIME type, decoder and error slot alike, for every URL, input source and
  error slot.
\<close>

theorem overloads_without_mime_type:
  "CreateDecoderForURL_noMIME createInputSourceForURL reg autoOpen url error
     = CreateDecoderForURL createInputSourceForURL reg autoOpen url None error
   \<and> CreateDecoderForInputSource_noMIME reg autoOpen inputSource error
     = CreateDecoderForInputSource reg autoOpen inputSource None error"
  by (simp add: CreateDecoderForURL_noMIME_def CreateDecoderForInputSource_noMIME_def)

end
